theory Spec2Isabelle
  imports Complex_Main "HOL-Library.Sublist" "HOL-Library.AList"
begin

section \<open>Data model of \<open>leafmap/foliumap.py\<close>\<close>

text \<open>
  The module is a Python class \<open>Map\<close> (a subclass of the folium map widget) and a few
  module-level functions. Python values whose dynamic type the code inspects
  (\<open>isinstance\<close>, \<open>len\<close>, \<open>startswith\<close>) are modelled by \<open>pyval\<close>. Callables
  are kept symbolically: \<open>PFun f\<close> is a function object supplied by the caller,
  \<open>PLambda d\<close> is the closure \<open>lambda x: d\<close> and \<open>PRandomColor d cs\<close> is the closure
  \<open>random_color\<close> of \<open>add_geojson\<close> over its style dictionary \<open>d\<close> and the list \<open>cs\<close>.
  Numbers the code only moves around (coordinates, opacities) are \<open>real\<close>.
\<close>

datatype pyval =
    PNone
  | PBool bool
  | PInt int
  | PFloat real
  | PStr string
  | PTuple "pyval list"
  | PList "pyval list"
  | PDict "(pyval \<times> pyval) list"
  | PFun string
  | PLambda pyval
  | PRandomColor pyval pyval

text \<open>
  Exceptions are values. \<open>Exception e\<close> is Python's \<open>Exception(e)\<close>: the generic
  exception whose argument is the exception \<open>e\<close> it was built from. The interpreter's
  own errors (\<open>IndexError\<close>, \<open>KeyError\<close>, \<open>AttributeError\<close>, a \<open>TypeError\<close> of \<open>len\<close>)
  carry a short description instead of the interpreter's message.
\<close>

datatype error =
    ValueError string
  | TypeError string
  | FileNotFoundError string
  | NotImplementedError string
  | IndexError string
  | KeyError string
  | AttributeError string
  | OSError string
  | NotADirectoryError string
  | IsADirectoryError string
  | Exception error

text \<open>
  Child elements of the widget. The constructors keep the arguments the module passes
  to the folium constructors: \<open>TileLayer tiles name attr overlay control show opacity
  API_key kwargs\<close>, \<open>GeoJson data name kwargs\<close>, \<open>MacroElement template\<close>.
\<close>

datatype element =
    TileLayer string string string pyval pyval pyval pyval pyval "(string \<times> pyval) list"
  | GeoJson pyval string "(string \<times> pyval) list"
  | LayerControl
  | MacroElement string

text \<open>
  The widget names a child by the snake-case form of its class name, an underscore and
  the element's random identifier; \<open>to_dict()["children"]\<close> is keyed by these names.
\<close>

fun element_name :: "element \<Rightarrow> string" where
  "element_name (TileLayer t n a ov c s op k kw) = ''tile_layer''"
| "element_name (GeoJson d n kw) = ''geo_json''"
| "element_name LayerControl = ''layer_control''"
| "element_name (MacroElement t) = ''macro_element''"

text \<open>
  The state the module acts on: the map's children in insertion order, the children of
  the map's root figure, the fit-bounds calls issued to the widget (bounds and
  \<open>max_zoom\<close>), the option \<open>options["layersControl"]\<close>, an idealised file system
  (regular files with their text, and directories), the HTTP GET requests issued so
  far, and the source of element identifiers (\<open>uuid4\<close> with the number drawn so far;
  identifiers are random and taken to be distinct, so a new child never replaces one).
  \<open>os_refuses\<close> is the error the operating system raises when asked to create or
  write a path for a reason the file system of the model does not show (permissions,
  a read-only medium), if any. The widget library and the network are collaborators;
  the definitions below say where their failures are a branch of the model.
\<close>

record world =
  children :: "(string \<times> element) list"
  root_children :: "(string \<times> element) list"
  fit_calls :: "(real list list \<times> nat option) list"
  layersControl :: bool
  files :: "string \<Rightarrow> string option"
  dirs :: "string set"
  requests :: "string list"
  uuid4 :: "nat \<Rightarrow> string"
  n_ids :: nat
  os_refuses :: "string \<Rightarrow> error option"

type_synonym 'a result = "(error + 'a) \<times> world"

subsection \<open>Widget primitives\<close>

definition add_child :: "element \<Rightarrow> world \<Rightarrow> world" where
  "add_child e w =
     w\<lparr>children := children w @ [(element_name e @ ''_'' @ uuid4 w (n_ids w), e)],
       n_ids := Suc (n_ids w)\<rparr>"


definition fit_bounds :: "real list list \<Rightarrow> nat option \<Rightarrow> world \<Rightarrow> world" where
  "fit_bounds bounds max_zoom w = w\<lparr>fit_calls := fit_calls w @ [(bounds, max_zoom)]\<rparr>"

subsection \<open>Layer control and view fitting (source lines 157-206)\<close>

definition add_layer :: "element \<Rightarrow> world \<Rightarrow> world" where
  "add_layer layer w = add_child layer w"

text \<open>
  \<open>add_layer_control\<close>: the loop sets \<open>layer_ctrl\<close> at the first child whose name starts
  with \<open>layer_control\<close> and stops; a control is added when none was found.
\<close>

definition add_layer_control :: "world \<Rightarrow> world" where
  "add_layer_control w =
     (let layer_ctrl = list_ex (\<lambda>item. prefix ''layer_control'' item) (map fst (children w))
      in if \<not> layer_ctrl then add_child LayerControl w else w)"

definition repr_mimebundle :: "world \<Rightarrow> world" where
  "repr_mimebundle w = (if layersControl w then add_layer_control w else w)"


text \<open>
  \<open>zoom_to_bounds\<close> reads \<open>bounds[0]\<close> to \<open>bounds[3]\<close>; Python raises \<open>IndexError\<close> on a
  shorter sequence, before the widget is touched.
\<close>

definition zoom_to_bounds :: "real list \<Rightarrow> world \<Rightarrow> unit result" where
  "zoom_to_bounds bounds w =
     (if length bounds < 4 then (Inl (IndexError ''bounds''), w)
      else (Inr (),
            fit_bounds [[bounds ! 1, bounds ! 0], [bounds ! 3, bounds ! 2]] None w))"

subsection \<open>File system and HTML export (source lines 1366-1398)\<close>


definition path_exists :: "world \<Rightarrow> string \<Rightarrow> bool" where
  "path_exists w p = (p \<in> dirs w \<or> files w p \<noteq> None)"








subsection \<open>Unsupported operations (source lines 1445-1610 and 1650-1676)\<close>

text \<open>
  A call passes positional and keyword arguments. Before the body of a function runs,
  the interpreter binds them to the parameters of its signature and raises \<open>TypeError\<close>
  when they do not fit. None of the signatures below has \<open>*args\<close>, positional-only or
  keyword-only parameters, so a signature is the list of its parameter names, the
  number of leading parameters without a default, and whether it ends in \<open>**kwargs\<close>.
\<close>

type_synonym args = "pyval list \<times> (string \<times> pyval) list"

record signature =
  params :: "string list"
  required :: nat
  var_keyword :: bool

text \<open>
  \<open>binds sg npos kws\<close>: \<open>npos\<close> positional arguments and keyword arguments named \<open>kws\<close>
  fit the signature. There are no more positional arguments than parameters; no
  keyword is given twice; a keyword that names a parameter names one the positional
  arguments have not filled, and any other keyword needs \<open>**kwargs\<close>; every parameter
  without a default is filled.
\<close>

definition binds :: "signature \<Rightarrow> nat \<Rightarrow> string list \<Rightarrow> bool" where
  "binds sg npos kws =
     (npos \<le> length (params sg)
      \<and> distinct kws
      \<and> list_all (\<lambda>k. if k \<in> set (params sg) then k \<notin> set (take npos (params sg))
                        else var_keyword sg) kws
      \<and> list_all (\<lambda>p. p \<in> set (take npos (params sg)) \<or> p \<in> set kws)
           (take (required sg) (params sg)))"

text \<open>
  The fixed set of stubs with the signatures of their \<open>def\<close> lines. A method has the
  parameter \<open>self\<close>, which the receiver of the call fills as the first positional
  argument; the module-level functions \<open>linked_maps\<close> and \<open>split_map\<close> have none. The
  method \<open>Map.split_map\<close> is \<open>Map_split_map\<close> here.
\<close>

datatype stub =
    Add_colormap | Add_marker_cluster | Add_minimap | Add_point_layer | Add_raster
  | Add_time_slider | Add_vector_tile_layer | Add_xy_data | Basemap_demo | Find_layer
  | Find_layer_index | Get_layer_names | Get_scale | Image_overlay | Layer_opacity
  | Method_split_map | To_image | Toolbar_reset | Video_overlay | Linked_maps
  | Function_split_map

fun signature_of :: "stub \<Rightarrow> signature" where
  "signature_of Add_colormap =
     \<lparr>params = [''self'', ''cmap'', ''colors'', ''discrete'', ''label'', ''width'',
                ''height'', ''orientation'', ''vmin'', ''vmax'', ''axis_off'', ''show_name'',
                ''font_size'', ''transparent_bg'', ''position''],
      required = 1, var_keyword = True\<rparr>"
| "signature_of Add_marker_cluster =
     \<lparr>params = [''self'', ''event'', ''add_marker''],
      required = 1, var_keyword = False\<rparr>"
| "signature_of Add_minimap =
     \<lparr>params = [''self'', ''zoom'', ''position''],
      required = 1, var_keyword = False\<rparr>"
| "signature_of Add_point_layer =
     \<lparr>params = [''self'', ''filename'', ''popup'', ''layer_name''],
      required = 2, var_keyword = True\<rparr>"
| "signature_of Add_raster =
     \<lparr>params = [''self'', ''image'', ''bands'', ''layer_name'', ''colormap'', ''x_dim'',
                ''y_dim''],
      required = 2, var_keyword = False\<rparr>"
| "signature_of Add_time_slider =
     \<lparr>params = [''self'', ''layers_dict'', ''labels'', ''time_interval'', ''position'',
                ''slider_length''],
      required = 1, var_keyword = False\<rparr>"
| "signature_of Add_vector_tile_layer =
     \<lparr>params = [''self'', ''url'', ''attribution'', ''vector_tile_layer_styles''],
      required = 1, var_keyword = True\<rparr>"
| "signature_of Add_xy_data =
     \<lparr>params = [''self'', ''in_csv'', ''x'', ''y'', ''label'', ''layer_name''],
      required = 2, var_keyword = False\<rparr>"
| "signature_of Basemap_demo =
     \<lparr>params = [''self''],
      required = 1, var_keyword = False\<rparr>"
| "signature_of Find_layer =
     \<lparr>params = [''self'', ''name''],
      required = 2, var_keyword = False\<rparr>"
| "signature_of Find_layer_index =
     \<lparr>params = [''self'', ''name''],
      required = 2, var_keyword = False\<rparr>"
| "signature_of Get_layer_names =
     \<lparr>params = [''self''],
      required = 1, var_keyword = False\<rparr>"
| "signature_of Get_scale =
     \<lparr>params = [''self''],
      required = 1, var_keyword = False\<rparr>"
| "signature_of Image_overlay =
     \<lparr>params = [''self'', ''url'', ''bounds'', ''name''],
      required = 4, var_keyword = False\<rparr>"
| "signature_of Layer_opacity =
     \<lparr>params = [''self'', ''name'', ''value''],
      required = 2, var_keyword = False\<rparr>"
| "signature_of Method_split_map =
     \<lparr>params = [''self'', ''left_layer'', ''right_layer''],
      required = 1, var_keyword = False\<rparr>"
| "signature_of To_image =
     \<lparr>params = [''self'', ''outfile'', ''monitor''],
      required = 1, var_keyword = False\<rparr>"
| "signature_of Toolbar_reset =
     \<lparr>params = [''self''],
      required = 1, var_keyword = False\<rparr>"
| "signature_of Video_overlay =
     \<lparr>params = [''self'', ''url'', ''bounds'', ''name''],
      required = 4, var_keyword = False\<rparr>"
| "signature_of Linked_maps =
     \<lparr>params = [''rows'', ''cols'', ''height'', ''layers'', ''labels'', ''label_position''],
      required = 0, var_keyword = True\<rparr>"
| "signature_of Function_split_map =
     \<lparr>params = [''left_layer'', ''right_layer'', ''left_label'', ''right_label'',
                ''label_position''],
      required = 0, var_keyword = True\<rparr>"

fun is_method :: "stub \<Rightarrow> bool" where
  "is_method Linked_maps = False"
| "is_method Function_split_map = False"
| "is_method s = True"

definition accepts :: "stub \<Rightarrow> args \<Rightarrow> bool" where
  "accepts s a =
     binds (signature_of s) ((if is_method s then 1 else 0) + length (fst a)) (map fst (snd a))"

text \<open>
  The body of every stub is one \<open>raise NotImplementedError\<close> with a fixed message. It
  runs when the arguments fit the signature; otherwise the call raises \<open>TypeError\<close>
  (its message starts with the name of the function).
\<close>

definition not_supported :: string where
  "not_supported =
     ''The folium plotting backend does not support this function. Use the ipyleaflet plotting backend instead.''"

definition add_colormap :: "args \<Rightarrow> world \<Rightarrow> pyval result" where
  "add_colormap a w =
     (if accepts Add_colormap a then (Inl (NotImplementedError not_supported), w)
      else (Inl (TypeError ''add_colormap()''), w))"

definition add_marker_cluster :: "args \<Rightarrow> world \<Rightarrow> pyval result" where
  "add_marker_cluster a w =
     (if accepts Add_marker_cluster a then (Inl (NotImplementedError not_supported), w)
      else (Inl (TypeError ''add_marker_cluster()''), w))"

definition add_minimap :: "args \<Rightarrow> world \<Rightarrow> pyval result" where
  "add_minimap a w =
     (if accepts Add_minimap a then (Inl (NotImplementedError not_supported), w)
      else (Inl (TypeError ''add_minimap()''), w))"

definition add_point_layer :: "args \<Rightarrow> world \<Rightarrow> pyval result" where
  "add_point_layer a w =
     (if accepts Add_point_layer a then (Inl (NotImplementedError not_supported), w)
      else (Inl (TypeError ''add_point_layer()''), w))"

definition add_raster :: "args \<Rightarrow> world \<Rightarrow> pyval result" where
  "add_raster a w =
     (if accepts Add_raster a then (Inl (NotImplementedError not_supported), w)
      else (Inl (TypeError ''add_raster()''), w))"

definition add_time_slider :: "args \<Rightarrow> world \<Rightarrow> pyval result" where
  "add_time_slider a w =
     (if accepts Add_time_slider a then (Inl (NotImplementedError not_supported), w)
      else (Inl (TypeError ''add_time_slider()''), w))"

definition add_vector_tile_layer :: "args \<Rightarrow> world \<Rightarrow> pyval result" where
  "add_vector_tile_layer a w =
     (if accepts Add_vector_tile_layer a then (Inl (NotImplementedError not_supported), w)
      else (Inl (TypeError ''add_vector_tile_layer()''), w))"

definition add_xy_data :: "args \<Rightarrow> world \<Rightarrow> pyval result" where
  "add_xy_data a w =
     (if accepts Add_xy_data a then (Inl (NotImplementedError not_supported), w)
      else (Inl (TypeError ''add_xy_data()''), w))"

definition basemap_demo :: "args \<Rightarrow> world \<Rightarrow> pyval result" where
  "basemap_demo a w =
     (if accepts Basemap_demo a then (Inl (NotImplementedError not_supported), w)
      else (Inl (TypeError ''basemap_demo()''), w))"

definition find_layer :: "args \<Rightarrow> world \<Rightarrow> pyval result" where
  "find_layer a w =
     (if accepts Find_layer a then (Inl (NotImplementedError not_supported), w)
      else (Inl (TypeError ''find_layer()''), w))"

definition find_layer_index :: "args \<Rightarrow> world \<Rightarrow> pyval result" where
  "find_layer_index a w =
     (if accepts Find_layer_index a then (Inl (NotImplementedError not_supported), w)
      else (Inl (TypeError ''find_layer_index()''), w))"

definition get_layer_names :: "args \<Rightarrow> world \<Rightarrow> pyval result" where
  "get_layer_names a w =
     (if accepts Get_layer_names a then (Inl (NotImplementedError not_supported), w)
      else (Inl (TypeError ''get_layer_names()''), w))"

definition get_scale :: "args \<Rightarrow> world \<Rightarrow> pyval result" where
  "get_scale a w =
     (if accepts Get_scale a then (Inl (NotImplementedError not_supported), w)
      else (Inl (TypeError ''get_scale()''), w))"

definition image_overlay :: "args \<Rightarrow> world \<Rightarrow> pyval result" where
  "image_overlay a w =
     (if accepts Image_overlay a then (Inl (NotImplementedError not_supported), w)
      else (Inl (TypeError ''image_overlay()''), w))"

definition layer_opacity :: "args \<Rightarrow> world \<Rightarrow> pyval result" where
  "layer_opacity a w =
     (if accepts Layer_opacity a then (Inl (NotImplementedError not_supported), w)
      else (Inl (TypeError ''layer_opacity()''), w))"

definition Map_split_map :: "args \<Rightarrow> world \<Rightarrow> pyval result" where
  "Map_split_map a w =
     (if accepts Method_split_map a then (Inl (NotImplementedError not_supported), w)
      else (Inl (TypeError ''split_map()''), w))"

definition to_image :: "args \<Rightarrow> world \<Rightarrow> pyval result" where
  "to_image a w =
     (if accepts To_image a then (Inl (NotImplementedError not_supported), w)
      else (Inl (TypeError ''to_image()''), w))"

definition toolbar_reset :: "args \<Rightarrow> world \<Rightarrow> pyval result" where
  "toolbar_reset a w =
     (if accepts Toolbar_reset a then (Inl (NotImplementedError not_supported), w)
      else (Inl (TypeError ''toolbar_reset()''), w))"

definition video_overlay :: "args \<Rightarrow> world \<Rightarrow> pyval result" where
  "video_overlay a w =
     (if accepts Video_overlay a then (Inl (NotImplementedError not_supported), w)
      else (Inl (TypeError ''video_overlay()''), w))"

definition linked_maps :: "args \<Rightarrow> error + pyval" where
  "linked_maps a =
     (if accepts Linked_maps a then Inl (NotImplementedError not_supported)
      else Inl (TypeError ''linked_maps()''))"

definition split_map :: "args \<Rightarrow> error + pyval" where
  "split_map a =
     (if accepts Function_split_map a then Inl (NotImplementedError not_supported)
      else Inl (TypeError ''split_map()''))"

text \<open>
  A call of one of the stubs on a map. A module-level function has no access to the
  map, which the call returns as it was.
\<close>

fun call_stub :: "stub \<Rightarrow> args \<Rightarrow> world \<Rightarrow> pyval result" where
  "call_stub Add_colormap a w = add_colormap a w"
| "call_stub Add_marker_cluster a w = add_marker_cluster a w"
| "call_stub Add_minimap a w = add_minimap a w"
| "call_stub Add_point_layer a w = add_point_layer a w"
| "call_stub Add_raster a w = add_raster a w"
| "call_stub Add_time_slider a w = add_time_slider a w"
| "call_stub Add_vector_tile_layer a w = add_vector_tile_layer a w"
| "call_stub Add_xy_data a w = add_xy_data a w"
| "call_stub Basemap_demo a w = basemap_demo a w"
| "call_stub Find_layer a w = find_layer a w"
| "call_stub Find_layer_index a w = find_layer_index a w"
| "call_stub Get_layer_names a w = get_layer_names a w"
| "call_stub Get_scale a w = get_scale a w"
| "call_stub Image_overlay a w = image_overlay a w"
| "call_stub Layer_opacity a w = layer_opacity a w"
| "call_stub Method_split_map a w = Map_split_map a w"
| "call_stub To_image a w = to_image a w"
| "call_stub Toolbar_reset a w = toolbar_reset a w"
| "call_stub Video_overlay a w = video_overlay a w"
| "call_stub Linked_maps a w = (linked_maps a, w)"
| "call_stub Function_split_map a w = (split_map a, w)"

subsection \<open>Tile layers and COG mosaics (source lines 279-317 and 686-751)\<close>





subsection \<open>Operations of the interpreter on dynamic values\<close>

definition is_tuple :: "pyval \<Rightarrow> bool" where
  "is_tuple v = (case v of PTuple xs \<Rightarrow> True | _ \<Rightarrow> False)"

definition is_str :: "pyval \<Rightarrow> bool" where
  "is_str v = (case v of PStr s \<Rightarrow> True | _ \<Rightarrow> False)"

text \<open>\<open>len(v)\<close>: defined on strings, tuples, lists and dictionaries.\<close>

definition py_len :: "pyval \<Rightarrow> error + nat" where
  "py_len v =
     (case v of
        PStr s \<Rightarrow> Inr (length s)
      | PTuple xs \<Rightarrow> Inr (length xs)
      | PList xs \<Rightarrow> Inr (length xs)
      | PDict d \<Rightarrow> Inr (length d)
      | _ \<Rightarrow> Inl (TypeError ''len''))"

text \<open>\<open>v.startswith(p)\<close>: only a string has the method.\<close>

definition py_startswith :: "pyval \<Rightarrow> string \<Rightarrow> error + bool" where
  "py_startswith v p =
     (case v of PStr s \<Rightarrow> Inr (prefix p s) | _ \<Rightarrow> Inl (AttributeError ''startswith''))"

text \<open>\<open>v[key]\<close> on a dictionary; the module subscripts nothing else by a string.\<close>

definition py_getitem :: "pyval \<Rightarrow> pyval \<Rightarrow> error + pyval" where
  "py_getitem v key =
     (case v of
        PDict d \<Rightarrow> (case map_of d key of None \<Rightarrow> Inl (KeyError ''weight'') | Some x \<Rightarrow> Inr x)
      | _ \<Rightarrow> Inl (TypeError ''subscript''))"

text \<open>\<open>v + 1\<close>: numbers only (a boolean counts as 0 or 1).\<close>

definition py_add1 :: "pyval \<Rightarrow> error + pyval" where
  "py_add1 v =
     (case v of
        PInt n \<Rightarrow> Inr (PInt (n + 1))
      | PBool b \<Rightarrow> Inr (PInt ((if b then 1 else 0) + 1))
      | PFloat x \<Rightarrow> Inr (PFloat (x + 1))
      | _ \<Rightarrow> Inl (TypeError ''+''))"

text \<open>
  \<open>all(p(item) for item in xs)\<close> stops at the first false item; an item on which \<open>p\<close>
  raises before that ends the whole expression. \<open>map_e\<close> is a list comprehension whose
  element expression may raise.
\<close>

fun py_all :: "('a \<Rightarrow> error + bool) \<Rightarrow> 'a list \<Rightarrow> error + bool" where
  "py_all p [] = Inr True"
| "py_all p (x # xs) =
     (case p x of Inl e \<Rightarrow> Inl e | Inr b \<Rightarrow> if b then py_all p xs else Inr False)"

fun map_e :: "('a \<Rightarrow> error + 'b) \<Rightarrow> 'a list \<Rightarrow> error + 'b list" where
  "map_e f [] = Inr []"
| "map_e f (x # xs) =
     (case f x of
        Inl e \<Rightarrow> Inl e
      | Inr y \<Rightarrow> (case map_e f xs of Inl e \<Rightarrow> Inl e | Inr ys \<Rightarrow> Inr (y # ys)))"

text \<open>\<open>sep.join(xs)\<close> and \<open>s.replace(old, new)\<close> for a non-empty \<open>old\<close>.\<close>

fun join :: "string \<Rightarrow> string list \<Rightarrow> string" where
  "join sep [] = []"
| "join sep [x] = x"
| "join sep (x # y # ys) = x @ sep @ join sep (y # ys)"



subsection \<open>Legend (source lines 869-986)\<close>

text \<open>
  Parameters of the model, for what the sources at hand do not contain: \<open>template\<close> is
  the list of lines of the legend template (\<open>None\<close> when the file does not exist),
  \<open>rgb_to_hex\<close> and \<open>check_color\<close> are the helpers of \<open>leafmap/common.py\<close>,
  \<open>builtin_legends\<close> is the table of \<open>leafmap/legends.py\<close> (legend name to a dictionary
  from label to colour), and \<open>fmt\<close> is the text an f-string inserts for a value.
\<close>

text \<open>Lines 902-906: the labels.\<close>

definition legend_labels :: "pyval \<Rightarrow> error + pyval list" where
  "legend_labels labels =
     (if labels \<noteq> PNone then
        (case labels of
           PList ls \<Rightarrow> Inr ls
         | _ \<Rightarrow> Inl (ValueError ''The legend labels must be a list.''))
      else Inr [PStr ''One'', PStr ''Two'', PStr ''Three'', PStr ''Four'', PStr ''etc''])"

text \<open>Lines 908-923: the colours given directly.\<close>

definition hash7 :: "pyval \<Rightarrow> error + bool" where
  "hash7 item =
     (case py_startswith item ''#'' of
        Inl e \<Rightarrow> Inl e
      | Inr b \<Rightarrow>
          if b then (case py_len item of Inl e \<Rightarrow> Inl e | Inr n \<Rightarrow> Inr (n = 7))
          else Inr False)"

definition len6 :: "pyval \<Rightarrow> error + bool" where
  "len6 item = (case py_len item of Inl e \<Rightarrow> Inl e | Inr n \<Rightarrow> Inr (n = 6))"

definition legend_colors :: "(pyval \<Rightarrow> error + string) \<Rightarrow> pyval \<Rightarrow> error + pyval list" where
  "legend_colors rgb_to_hex colors =
     (if colors \<noteq> PNone then
        (case colors of
           PList cs \<Rightarrow>
             if list_all is_tuple cs then
               (case map_e rgb_to_hex cs of
                  Inl e \<Rightarrow> Inl (Exception e)
                | Inr hs \<Rightarrow> Inr (map (\<lambda>h. PStr (''#'' @ h)) hs))
             else
               (case py_all hash7 cs of
                  Inl e \<Rightarrow> Inl e
                | Inr b7 \<Rightarrow>
                    if b7 then Inr cs
                    else
                      (case py_all len6 cs of
                         Inl e \<Rightarrow> Inl e
                       | Inr b6 \<Rightarrow>
                           if b6 then Inr cs
                           else Inl (ValueError ''The legend colors must be a list of tuples.'')))
         | _ \<Rightarrow> Inl (ValueError ''The legend colors must be a list.''))
      else Inr [PStr ''#8DD3C7'', PStr ''#FFFFB3'', PStr ''#BEBADA'', PStr ''#FB8072'',
                PStr ''#80B1D3''])"

text \<open>
  Lines 940-946 (builtin legend) and 955-961 (legend dictionary): the colours taken
  from a dictionary. A string gets a \<open>#\<close> in front; \<open>"#" + color\<close> needs no case for
  other values, since this branch is entered only when every colour is a string.
\<close>

definition hash_str :: "pyval \<Rightarrow> pyval" where
  "hash_str c = (case c of PStr s \<Rightarrow> PStr (''#'' @ s) | _ \<Rightarrow> c)"

definition builtin_colors :: "(pyval \<Rightarrow> error + string) \<Rightarrow> pyval list \<Rightarrow> error + pyval list" where
  "builtin_colors rgb_to_hex cs =
     (if list_all is_tuple cs then
        (case map_e rgb_to_hex cs of
           Inl e \<Rightarrow> Inl (Exception e)
         | Inr hs \<Rightarrow> Inr (map PStr hs))
      else if list_all is_str cs then Inr (map hash_str cs)
      else Inr cs)"

definition dict_colors :: "(pyval \<Rightarrow> error + string) \<Rightarrow> pyval list \<Rightarrow> error + pyval list" where
  "dict_colors rgb_to_hex cs =
     (if list_all is_tuple cs then
        (case map_e rgb_to_hex cs of
           Inl e \<Rightarrow> Inl (Exception e)
         | Inr hs \<Rightarrow> Inr (map (\<lambda>h. PStr (''#'' @ h)) hs))
      else if list_all is_str cs then Inr (map hash_str cs)
      else Inr cs)"

text \<open>Lines 928-946: a builtin legend replaces labels, colours and \<open>legend_dict\<close>.\<close>

definition builtin_step ::
  "(pyval \<Rightarrow> error + string) \<Rightarrow> (string \<times> (pyval \<times> pyval) list) list \<Rightarrow> string option
     \<Rightarrow> pyval list \<times> pyval list \<times> pyval \<Rightarrow> error + pyval list \<times> pyval list \<times> pyval" where
  "builtin_step rgb_to_hex builtin_legends builtin_legend st =
     (case builtin_legend of
        None \<Rightarrow> Inr st
      | Some b \<Rightarrow>
          (case map_of builtin_legends b of
             None \<Rightarrow>
               Inl (ValueError (''The builtin legend must be one of the following: ''
                      @ join '', '' (map fst builtin_legends)))
           | Some d \<Rightarrow>
               (case builtin_colors rgb_to_hex (map snd d) of
                  Inl e \<Rightarrow> Inl e
                | Inr cs \<Rightarrow> Inr (map fst d, cs, PDict d))))"

text \<open>Lines 948-961: a legend dictionary replaces labels and colours.\<close>

definition dict_step ::
  "(pyval \<Rightarrow> error + string) \<Rightarrow> pyval list \<times> pyval list \<times> pyval
     \<Rightarrow> error + pyval list \<times> pyval list" where
  "dict_step rgb_to_hex st =
     (case st of (labels, colors, legend_dict) \<Rightarrow>
        if legend_dict \<noteq> PNone then
          (case legend_dict of
             PDict d \<Rightarrow>
               (case dict_colors rgb_to_hex (map snd d) of
                  Inl e \<Rightarrow> Inl e
                | Inr cs \<Rightarrow> Inr (map fst d, cs))
           | _ \<Rightarrow> Inl (ValueError ''The legend dict must be a dictionary.''))
        else Inr (labels, colors))"

text \<open>Lines 899-961: the labels and colours the legend is rendered from.\<close>

definition legend_resolve ::
  "string list option \<Rightarrow> (pyval \<Rightarrow> error + string) \<Rightarrow> (string \<times> (pyval \<times> pyval) list) list
     \<Rightarrow> pyval \<Rightarrow> pyval \<Rightarrow> pyval \<Rightarrow> string option \<Rightarrow> error + pyval list \<times> pyval list" where
  "legend_resolve template rgb_to_hex builtin_legends colors labels legend_dict builtin_legend =
     (case template of
        None \<Rightarrow> Inl (FileNotFoundError ''The legend template does not exist.'')
      | Some tlines \<Rightarrow>
          (case legend_labels labels of
             Inl e \<Rightarrow> Inl e
           | Inr labels1 \<Rightarrow>
               (case legend_colors rgb_to_hex colors of
                  Inl e \<Rightarrow> Inl e
                | Inr colors1 \<Rightarrow>
                    if length labels1 \<noteq> length colors1
                    then Inl (ValueError ''The legend keys and values must be the same length.'')
                    else
                      (case builtin_step rgb_to_hex builtin_legends builtin_legend
                              (labels1, colors1, legend_dict) of
                         Inl e \<Rightarrow> Inl e
                       | Inr st \<Rightarrow> dict_step rgb_to_hex st))))"

text \<open>
  Lines 976-978: one list item per colour, with the label of the same index
  (\<open>labels[i]\<close> raises \<open>IndexError\<close> past the end of the labels).
\<close>

definition legend_item ::
  "(pyval \<Rightarrow> pyval) \<Rightarrow> (pyval \<Rightarrow> string) \<Rightarrow> pyval \<Rightarrow> pyval list \<Rightarrow> nat \<times> pyval \<Rightarrow> error + string" where
  "legend_item check_color fmt opacity labels ic =
     (case ic of (i, color) \<Rightarrow>
        if i < length labels then
          Inr (''    <li><span style='background:'' @ fmt (check_color color) @ '';opacity:''
               @ fmt opacity @ '';'></span>'' @ fmt (labels ! i) @ ''</li>'' @ [CHR 0x0A])
        else Inl (IndexError ''labels''))"

definition legend_items ::
  "(pyval \<Rightarrow> pyval) \<Rightarrow> (pyval \<Rightarrow> string) \<Rightarrow> pyval \<Rightarrow> pyval list \<Rightarrow> pyval list
     \<Rightarrow> error + string list" where
  "legend_items check_color fmt opacity labels colors =
     map_e (legend_item check_color fmt opacity labels) (enumerate 0 colors)"



text \<open>
  Lines 1020-1021 of \<open>add_colorbar\<close>: when every colour has length 6, each gets a \<open>#\<close> in
  front (\<open>"#" + color\<close> raises \<open>TypeError\<close> on a value that is no string).
\<close>

definition colorbar_colors :: "pyval list \<Rightarrow> error + pyval list" where
  "colorbar_colors colors =
     (case py_all len6 colors of
        Inl e \<Rightarrow> Inl e
      | Inr b6 \<Rightarrow>
          if b6 then
            map_e (\<lambda>c. case c of PStr s \<Rightarrow> Inr (PStr (''#'' @ s)) | _ \<Rightarrow> Inl (TypeError ''+''))
              colors
          else Inr colors)"

subsection \<open>Vector ingestion (source lines 1070-1207)\<close>

text \<open>
  Lines 1086-1102, the body of the \<open>try\<close> statement of \<open>add_geojson\<close>. Parameters of the
  model: \<open>abspath\<close> is \<open>os.path.abspath\<close>, \<open>http_get\<close> gives the body of the response to a
  GET request (or the error \<open>requests\<close> raises), \<open>json_loads\<close> parses JSON text. Every
  GET request is recorded in the state. Opening a path that exists but is no regular
  file fails in the operating system.
\<close>

definition geojson_try ::
  "(string \<Rightarrow> string) \<Rightarrow> (string \<Rightarrow> error + string) \<Rightarrow> (string \<Rightarrow> error + pyval)
     \<Rightarrow> pyval \<Rightarrow> world \<Rightarrow> pyval result" where
  "geojson_try abspath http_get json_loads in_geojson w =
     (case in_geojson of
        PStr s \<Rightarrow>
          if prefix ''http'' s then
            (let w1 = w\<lparr>requests := requests w @ [s]\<rparr> in
             case http_get s of
               Inl e \<Rightarrow> (Inl e, w1)
             | Inr body \<Rightarrow>
                 (case json_loads body of Inl e \<Rightarrow> (Inl e, w1) | Inr data \<Rightarrow> (Inr data, w1)))
          else
            (let path = abspath s in
             if \<not> path_exists w path
             then (Inl (FileNotFoundError ''The provided GeoJSON file could not be found.''), w)
             else
               (case files w path of
                  None \<Rightarrow> (Inl (OSError path), w)
                | Some text \<Rightarrow>
                    (case json_loads text of
                       Inl e \<Rightarrow> (Inl e, w)
                     | Inr data \<Rightarrow> (Inr data, w))))
      | PDict d \<Rightarrow> (Inr in_geojson, w)
      | _ \<Rightarrow> (Inl (TypeError ''The input geojson must be a type of str or dict.''), w))"

text \<open>
  Lines 1084-1104: the handler \<open>except Exception as e: raise Exception(e)\<close> around that
  body turns every exception raised in it into a generic \<open>Exception\<close>.
\<close>

definition geojson_data ::
  "(string \<Rightarrow> string) \<Rightarrow> (string \<Rightarrow> error + string) \<Rightarrow> (string \<Rightarrow> error + pyval)
     \<Rightarrow> pyval \<Rightarrow> world \<Rightarrow> pyval result" where
  "geojson_data abspath http_get json_loads in_geojson w =
     (case geojson_try abspath http_get json_loads in_geojson w of
        (Inl e, w1) \<Rightarrow> (Inl (Exception e), w1)
      | (Inr data, w1) \<Rightarrow> (Inr data, w1))"

text \<open>
  Keyword arguments are a dictionary from names to values, in insertion order:
  assignment is \<open>AList.update\<close>, \<open>pop\<close> is \<open>AList.delete\<close>, lookup is \<open>map_of\<close>.
\<close>

type_synonym kwargs = "(string \<times> pyval) list"

definition default_style :: pyval where
  "default_style =
     PDict [(PStr ''color'', PStr ''#000000''), (PStr ''weight'', PInt 1),
            (PStr ''opacity'', PInt 1), (PStr ''fillOpacity'', PFloat 0.1)]"

text \<open>Lines 1107-1124: the style dictionary. The result is the new \<open>kwargs\<close> and \<open>style_dict\<close>.\<close>

definition style_step :: "kwargs \<Rightarrow> kwargs \<times> pyval" where
  "style_step kwargs =
     (case map_of kwargs ''style'' of
        Some style \<Rightarrow>
          (AList.delete ''style''
             (if (case style of PDict d \<Rightarrow> 0 < length d | _ \<Rightarrow> False)
              then AList.update ''style_function'' (PLambda style) kwargs
              else kwargs),
           style)
      | None \<Rightarrow> (AList.update ''style_function'' (PLambda default_style) kwargs, default_style))"

text \<open>Lines 1126-1129: the style callback.\<close>

definition callback_step :: "kwargs \<Rightarrow> kwargs" where
  "callback_step kwargs =
     (case map_of kwargs ''style_callback'' of
        Some cb \<Rightarrow>
          AList.delete ''style_callback''
            (if cb \<noteq> PNone then AList.update ''style_function'' cb kwargs else kwargs)
      | None \<Rightarrow> kwargs)"

text \<open>Lines 1131-1138: the hover style.\<close>

definition hover_step :: "pyval \<Rightarrow> kwargs \<Rightarrow> error + kwargs" where
  "hover_step style_dict kwargs =
     (case map_of kwargs ''hover_style'' of
        Some h \<Rightarrow>
          (case py_len h of
             Inl e \<Rightarrow> Inl e
           | Inr n \<Rightarrow>
               Inr (AList.delete ''hover_style''
                      (if 0 < n then AList.update ''highlight_function'' (PLambda h) kwargs
                       else kwargs)))
      | None \<Rightarrow>
          (case py_getitem style_dict (PStr ''weight'') of
             Inl e \<Rightarrow> Inl e
           | Inr wt \<Rightarrow>
               (case py_add1 wt of
                  Inl e \<Rightarrow> Inl e
                | Inr wt1 \<Rightarrow>
                    Inr (AList.update ''highlight_function''
                           (PLambda (PDict [(PStr ''weight'', wt1),
                                            (PStr ''fillOpacity'', PFloat 0.5)]))
                           kwargs))))"

text \<open>Lines 1140-1151: the fill colours, and the key \<open>info_mode\<close>, which is dropped.\<close>

definition fill_step :: "pyval \<Rightarrow> kwargs \<Rightarrow> kwargs" where
  "fill_step style_dict kwargs =
     (case map_of kwargs ''fill_colors'' of
        Some fill_colors \<Rightarrow>
          AList.delete ''fill_colors''
            (AList.update ''style_function'' (PRandomColor style_dict fill_colors) kwargs)
      | None \<Rightarrow> kwargs)"

definition info_step :: "kwargs \<Rightarrow> kwargs" where
  "info_step kwargs = AList.delete ''info_mode'' kwargs"

text \<open>
  \<open>add_geojson\<close> (lines 1070-1154): the data, then the keyword arguments as the steps
  above leave them, then the layer. What folium itself checks when it builds the layer
  (it calls the style function on the first feature of the data) is not part of the
  definition: the layer is taken as built.
\<close>

definition add_geojson ::
  "(string \<Rightarrow> string) \<Rightarrow> (string \<Rightarrow> error + string) \<Rightarrow> (string \<Rightarrow> error + pyval)
     \<Rightarrow> pyval \<Rightarrow> string \<Rightarrow> kwargs \<Rightarrow> world \<Rightarrow> unit result" where
  "add_geojson abspath http_get json_loads in_geojson layer_name kwargs w =
     (case geojson_data abspath http_get json_loads in_geojson w of
        (Inl e, w1) \<Rightarrow> (Inl e, w1)
      | (Inr data, w1) \<Rightarrow>
          (case style_step kwargs of (kw1, style_dict) \<Rightarrow>
             (case hover_step style_dict (callback_step kw1) of
                Inl e \<Rightarrow> (Inl e, w1)
              | Inr kw3 \<Rightarrow>
                  (Inr (),
                   add_child (GeoJson data layer_name (info_step (fill_step style_dict kw3))) w1))))"

text \<open>
  What the widget obtains when it calls the layer's style function on a feature:
  \<open>lambda x: style_dict\<close> returns the dictionary; \<open>random_color\<close> stores
  \<open>random.choice(fill_colors)\<close> under \<open>fillColor\<close> and returns the dictionary, where
  \<open>choice\<close> is the index the random generator picks; a function of the caller is applied
  by \<open>call\<close>.
\<close>

definition apply_style ::
  "(string \<Rightarrow> pyval \<Rightarrow> error + pyval) \<Rightarrow> nat \<Rightarrow> pyval \<Rightarrow> pyval \<Rightarrow> error + pyval" where
  "apply_style call choice style_function feature =
     (case style_function of
        PLambda d \<Rightarrow> Inr d
      | PRandomColor d fill_colors \<Rightarrow>
          (case fill_colors of
             PList cs \<Rightarrow>
               if choice < length cs then
                 (case d of
                    PDict kv \<Rightarrow> Inr (PDict (AList.update (PStr ''fillColor'') (cs ! choice) kv))
                  | _ \<Rightarrow> Inl (TypeError ''item assignment''))
               else Inl (IndexError ''choice'')
           | _ \<Rightarrow> Inl (TypeError ''choice''))
      | PFun f \<Rightarrow> call f feature
      | _ \<Rightarrow> Inl (TypeError ''call''))"

text \<open>
  Lines 1170-1178 and 1199-1207 (the same statements): \<open>np.min\<close> and \<open>np.max\<close> of a
  column of the bounds table, whose rows are \<open>(minx, miny, maxx, maxy)\<close>. On a column with
  no row pandas gives \<open>nan\<close>, and the source goes on to \<open>fit_bounds\<close> with it; the reals of
  this model have no such value, so the model ends the call with an error there, and
  nothing below is stated about a table without rows.
\<close>

definition np_min :: "real list \<Rightarrow> error + real" where
  "np_min xs = (case xs of [] \<Rightarrow> Inl (ValueError ''zero-size array'') | x # rest \<Rightarrow> Inr (fold min rest x))"

definition np_max :: "real list \<Rightarrow> error + real" where
  "np_max xs = (case xs of [] \<Rightarrow> Inl (ValueError ''zero-size array'') | x # rest \<Rightarrow> Inr (fold max rest x))"

definition fit_to_rows :: "(real \<times> real \<times> real \<times> real) list \<Rightarrow> world \<Rightarrow> unit result" where
  "fit_to_rows rows w =
     (case np_min (map (\<lambda>(minx, miny, maxx, maxy). minx) rows) of
        Inl e \<Rightarrow> (Inl e, w)
      | Inr west \<Rightarrow>
     (case np_min (map (\<lambda>(minx, miny, maxx, maxy). miny) rows) of
        Inl e \<Rightarrow> (Inl e, w)
      | Inr south \<Rightarrow>
     (case np_max (map (\<lambda>(minx, miny, maxx, maxy). maxx) rows) of
        Inl e \<Rightarrow> (Inl e, w)
      | Inr east \<Rightarrow>
     (case np_max (map (\<lambda>(minx, miny, maxx, maxy). maxy) rows) of
        Inl e \<Rightarrow> (Inl e, w)
      | Inr north \<Rightarrow> (Inr (), fit_bounds [[south, east], [north, west]] None w)))))"

text \<open>
  \<open>add_gdf\<close> and \<open>add_gdf_from_postgis\<close>. Parameters of the model, besides those of
  \<open>add_geojson\<close>: \<open>gdf_to_geojson\<close> and \<open>read_postgis\<close> (helpers of \<open>leafmap/common.py\<close>)
  and \<open>to_crs_bounds\<close>, the rows of \<open>gdf.to_crs(epsg="4326").bounds\<close>.
\<close>

definition add_gdf ::
  "(string \<Rightarrow> string) \<Rightarrow> (string \<Rightarrow> error + string) \<Rightarrow> (string \<Rightarrow> error + pyval)
     \<Rightarrow> ('gdf \<Rightarrow> error + pyval) \<Rightarrow> ('gdf \<Rightarrow> error + (real \<times> real \<times> real \<times> real) list)
     \<Rightarrow> 'gdf \<Rightarrow> string \<Rightarrow> bool \<Rightarrow> kwargs \<Rightarrow> world \<Rightarrow> unit result" where
  "add_gdf abspath http_get json_loads gdf_to_geojson to_crs_bounds
       gdf layer_name zoom_to_layer kwargs w =
     (case gdf_to_geojson gdf of
        Inl e \<Rightarrow> (Inl e, w)
      | Inr data \<Rightarrow>
          (case add_geojson abspath http_get json_loads data layer_name kwargs w of
             (Inl e, w1) \<Rightarrow> (Inl e, w1)
           | (Inr u, w1) \<Rightarrow>
               if zoom_to_layer then
                 (case to_crs_bounds gdf of
                    Inl e \<Rightarrow> (Inl e, w1)
                  | Inr rows \<Rightarrow> fit_to_rows rows w1)
               else (Inr (), w1)))"

definition add_gdf_from_postgis ::
  "(string \<Rightarrow> string) \<Rightarrow> (string \<Rightarrow> error + string) \<Rightarrow> (string \<Rightarrow> error + pyval)
     \<Rightarrow> ('gdf \<Rightarrow> error + pyval) \<Rightarrow> ('gdf \<Rightarrow> error + (real \<times> real \<times> real \<times> real) list)
     \<Rightarrow> (string \<Rightarrow> 'con \<Rightarrow> kwargs \<Rightarrow> error + 'gdf)
     \<Rightarrow> string \<Rightarrow> 'con \<Rightarrow> string \<Rightarrow> bool \<Rightarrow> kwargs \<Rightarrow> world \<Rightarrow> unit result" where
  "add_gdf_from_postgis abspath http_get json_loads gdf_to_geojson to_crs_bounds read_postgis
       sql con layer_name zoom_to_layer kwargs w =
     (let kwargs1 = (if map_of kwargs ''fill_colors'' \<noteq> None
                     then AList.delete ''fill_colors'' kwargs else kwargs) in
      case read_postgis sql con kwargs1 of
        Inl e \<Rightarrow> (Inl e, w)
      | Inr gdf \<Rightarrow>
          (case gdf_to_geojson gdf of
             Inl e \<Rightarrow> (Inl e, w)
           | Inr data \<Rightarrow>
               (case add_geojson abspath http_get json_loads data layer_name kwargs1 w of
                  (Inl e, w1) \<Rightarrow> (Inl e, w1)
                | (Inr u, w1) \<Rightarrow>
                    if zoom_to_layer then
                      (case to_crs_bounds gdf of
                         Inl e \<Rightarrow> (Inl e, w1)
                       | Inr rows \<Rightarrow> fit_to_rows rows w1)
                    else (Inr (), w1))))"

text \<open>
  \<open>zoom_to_gdf\<close> (lines 199-206) and \<open>add_osm_from_geocode\<close> (lines 360-403), one of the
  callers that hand every style argument on to \<open>add_geojson\<close> by keyword. Parameters
  of the model: \<open>total_bounds\<close> and \<open>geo_interface\<close> are the attributes of that name of a
  GeoDataFrame, \<open>osm_gdf_from_geocode\<close> is the helper of \<open>leafmap/osm.py\<close>. The defaults of
  the signature are \<open>style={}\<close>, \<open>hover_style={}\<close>, \<open>style_callback=None\<close>,
  \<open>fill_colors=["black"]\<close> and \<open>info_mode="on_hover"\<close>.
\<close>

definition zoom_to_gdf :: "('gdf \<Rightarrow> real list) \<Rightarrow> 'gdf \<Rightarrow> world \<Rightarrow> unit result" where
  "zoom_to_gdf total_bounds gdf w = zoom_to_bounds (total_bounds gdf) w"

definition add_osm_from_geocode ::
  "(string \<Rightarrow> string) \<Rightarrow> (string \<Rightarrow> error + string) \<Rightarrow> (string \<Rightarrow> error + pyval)
     \<Rightarrow> (pyval \<Rightarrow> pyval \<Rightarrow> bool \<Rightarrow> pyval \<Rightarrow> error + 'gdf) \<Rightarrow> ('gdf \<Rightarrow> pyval) \<Rightarrow> ('gdf \<Rightarrow> real list)
     \<Rightarrow> pyval \<Rightarrow> pyval \<Rightarrow> bool \<Rightarrow> pyval \<Rightarrow> string \<Rightarrow> pyval \<Rightarrow> pyval \<Rightarrow> pyval \<Rightarrow> pyval \<Rightarrow> pyval
     \<Rightarrow> world \<Rightarrow> unit result" where
  "add_osm_from_geocode abspath http_get json_loads osm_gdf_from_geocode geo_interface
       total_bounds query which_result by_osmid buffer_dist layer_name style hover_style
       style_callback fill_colors info_mode w =
     (case osm_gdf_from_geocode query which_result by_osmid buffer_dist of
        Inl e \<Rightarrow> (Inl e, w)
      | Inr gdf \<Rightarrow>
          (case add_geojson abspath http_get json_loads (geo_interface gdf) layer_name
                  [(''style'', style), (''hover_style'', hover_style),
                   (''style_callback'', style_callback), (''fill_colors'', fill_colors),
                   (''info_mode'', info_mode)] w of
             (Inl e, w1) \<Rightarrow> (Inl e, w1)
           | (Inr u, w1) \<Rightarrow> zoom_to_gdf total_bounds gdf w1))"

subsection \<open>Sequences of calls, and a sample state\<close>





text \<open>
  A sample state: a map with the default Google tile layer, centred as the constructor
  does by default, over a file system with the directories \<open>/\<close> and \<open>/home\<close> and one
  GeoJSON file, on which the operating system refuses nothing.
\<close>

definition sample_world :: world where
  "sample_world =
     \<lparr>children = [(''tile_layer_0'',
                    TileLayer ''https://mt1.google.com/vt/lyrs=m&x={x}&y={y}&z={z}'' ''Google Maps''
                      ''Google'' (PBool True) (PBool True) (PBool True) (PFloat 1) PNone [])],
       root_children = [],
       fit_calls = [([[40, -100], [40, -100]], Some 4)],
       layersControl = True,
       files = [''/home/a.geojson'' \<mapsto> ''{}''],
       dirs = {''/'', ''/home''},
       requests = [],
       uuid4 = (\<lambda>n. replicate (Suc n) CHR ''a''),
       n_ids = 1,
       os_refuses = (\<lambda>path. None)\<rparr>"







section \<open>Properties\<close>

text \<open>
  C5. For every 4-element bounds list \<open>[minx, miny, maxx, maxy]\<close>, \<open>zoom_to_bounds\<close>
  succeeds and issues exactly one fit-bounds call, appended to the calls made so far,
  whose first pair is \<open>[miny, minx]\<close> and whose second pair is \<open>[maxy, maxx]\<close> (no
  \<open>max_zoom\<close>); every other component of the state is unchanged.
\<close>

theorem zoom_to_bounds_swaps_axes:
  "zoom_to_bounds [minx, miny, maxx, maxy] w =
     (Inr (), w\<lparr>fit_calls := fit_calls w @ [([[miny, minx], [maxy, maxx]], None)]\<rparr>)"
  by (simp add: zoom_to_bounds_def fit_bounds_def)

subsection \<open>The layer control\<close>



lemma layersControl_add_layer_control [simp]:
  "layersControl (add_layer_control w) = layersControl w"
  by (simp add: add_layer_control_def add_child_def)











subsection \<open>Zooming to a GeoDataFrame\<close>

lemma np_min_Min: "xs \<noteq> [] \<Longrightarrow> np_min xs = Inr (Min (set xs))"
  by (cases xs) (simp_all add: np_min_def Min.set_eq_fold [symmetric])

lemma np_max_Max: "xs \<noteq> [] \<Longrightarrow> np_max xs = Inr (Max (set xs))"
  by (cases xs) (simp_all add: np_max_def Max.set_eq_fold [symmetric])

lemma fit_to_rows_nonempty:
  assumes "rows \<noteq> []"
  shows "fit_to_rows rows w =
     (Inr (),
      fit_bounds
        [[Min (set (map (\<lambda>(minx, miny, maxx, maxy). miny) rows)),
          Max (set (map (\<lambda>(minx, miny, maxx, maxy). maxx) rows))],
         [Max (set (map (\<lambda>(minx, miny, maxx, maxy). maxy) rows)),
          Min (set (map (\<lambda>(minx, miny, maxx, maxy). minx) rows))]] None w)"
  using assms by (simp add: fit_to_rows_def np_min_Min np_max_Max)

text \<open>
  C4. Let \<open>west\<close>, \<open>south\<close>, \<open>east\<close>, \<open>north\<close> be the extremes of the (non-empty)
  reprojected bounds of a GeoDataFrame. Whenever the GeoJSON layer is added
  successfully, \<open>add_gdf\<close> and \<open>add_gdf_from_postgis\<close> with \<open>zoom_to_layer=True\<close> append
  the fit-bounds call \<open>[[south, east], [north, west]]\<close>, whereas \<open>zoom_to_bounds\<close> on
  \<open>[west, south, east, north]\<close> appends \<open>[[south, west], [north, east]]\<close>: east and west
  are exchanged.
\<close>

theorem gdf_zoom_exchanges_east_west:
  assumes rows: "to_crs_bounds gdf = Inr rows" "rows \<noteq> []"
    and data: "gdf_to_geojson gdf = Inr data"
    and west: "west = Min (set (map (\<lambda>(minx, miny, maxx, maxy). minx) rows))"
    and south: "south = Min (set (map (\<lambda>(minx, miny, maxx, maxy). miny) rows))"
    and east: "east = Max (set (map (\<lambda>(minx, miny, maxx, maxy). maxx) rows))"
    and north: "north = Max (set (map (\<lambda>(minx, miny, maxx, maxy). maxy) rows))"
  shows
    "(add_geojson abspath http_get json_loads data layer_name kwargs w = (Inr (), w1) \<longrightarrow>
        add_gdf abspath http_get json_loads gdf_to_geojson to_crs_bounds
            gdf layer_name True kwargs w
          = (Inr (), w1\<lparr>fit_calls := fit_calls w1 @ [([[south, east], [north, west]], None)]\<rparr>))
     \<and> (read_postgis sql con (AList.delete ''fill_colors'' kwargs) = Inr gdf
         \<and> add_geojson abspath http_get json_loads data layer_name
              (AList.delete ''fill_colors'' kwargs) w = (Inr (), w2) \<longrightarrow>
        add_gdf_from_postgis abspath http_get json_loads gdf_to_geojson to_crs_bounds read_postgis
            sql con layer_name True kwargs w
          = (Inr (), w2\<lparr>fit_calls := fit_calls w2 @ [([[south, east], [north, west]], None)]\<rparr>))
     \<and> zoom_to_bounds [west, south, east, north] w1
          = (Inr (), w1\<lparr>fit_calls := fit_calls w1 @ [([[south, west], [north, east]], None)]\<rparr>)"
proof (intro conjI impI)
  assume "add_geojson abspath http_get json_loads data layer_name kwargs w = (Inr (), w1)"
  then show "add_gdf abspath http_get json_loads gdf_to_geojson to_crs_bounds
            gdf layer_name True kwargs w
          = (Inr (), w1\<lparr>fit_calls := fit_calls w1 @ [([[south, east], [north, west]], None)]\<rparr>)"
    using rows data
    by (simp add: add_gdf_def fit_to_rows_nonempty fit_bounds_def west south east north)
next
  assume h: "read_postgis sql con (AList.delete ''fill_colors'' kwargs) = Inr gdf
         \<and> add_geojson abspath http_get json_loads data layer_name
              (AList.delete ''fill_colors'' kwargs) w = (Inr (), w2)"
  have del: "(if map_of kwargs ''fill_colors'' \<noteq> None
              then AList.delete ''fill_colors'' kwargs else kwargs)
             = AList.delete ''fill_colors'' kwargs"
    by (simp add: delete_notin_dom map_of_eq_None_iff AList.delete_id)
  show "add_gdf_from_postgis abspath http_get json_loads gdf_to_geojson to_crs_bounds read_postgis
            sql con layer_name True kwargs w
          = (Inr (), w2\<lparr>fit_calls := fit_calls w2 @ [([[south, east], [north, west]], None)]\<rparr>)"
    unfolding add_gdf_from_postgis_def del Let_def
    using h rows data
    by (simp add: fit_to_rows_nonempty fit_bounds_def west south east north)
next
  show "zoom_to_bounds [west, south, east, north] w1
          = (Inr (), w1\<lparr>fit_calls := fit_calls w1 @ [([[south, west], [north, east]], None)]\<rparr>)"
    by (simp add: zoom_to_bounds_def fit_bounds_def)
qed

lemma add_geojson_dict_plain:
  "add_geojson abspath http_get json_loads (PDict d) layer_name [] w
     = (Inr (),
        add_child (GeoJson (PDict d) layer_name
                     [(''style_function'', PLambda default_style),
                      (''highlight_function'',
                       PLambda (PDict [(PStr ''weight'', PInt 2),
                                       (PStr ''fillOpacity'', PFloat 0.5)]))]) w)"
  by (simp add: add_geojson_def geojson_data_def geojson_try_def style_step_def
        callback_step_def hover_step_def fill_step_def info_step_def default_style_def
        py_getitem_def py_add1_def)

text \<open>
  Two rows with extremes \<open>west = -10\<close>, \<open>south = 38\<close>, \<open>east = 2\<close>, \<open>north = 50\<close> on the
  sample map.
\<close>

theorem gdf_zoom_exchanges_east_west_witness:
  "add_gdf (\<lambda>p. p) (\<lambda>u. Inl (OSError ''offline'')) (\<lambda>t. Inl (ValueError ''json''))
       (\<lambda>g::nat. Inr (PDict [(PStr ''type'', PStr ''FeatureCollection'')]))
       (\<lambda>g::nat. Inr [(-10, 40, -5, 45), (-8, 38, 2, 50)])
       0 ''Untitled'' True [] sample_world
     = (Inr (),
        (add_child (GeoJson (PDict [(PStr ''type'', PStr ''FeatureCollection'')]) ''Untitled''
                     [(''style_function'', PLambda default_style),
                      (''highlight_function'',
                       PLambda (PDict [(PStr ''weight'', PInt 2),
                                       (PStr ''fillOpacity'', PFloat 0.5)]))]) sample_world)
        \<lparr>fit_calls := [([[40, -100], [40, -100]], Some 4), ([[38, 2], [50, -10]], None)]\<rparr>)
   \<and> fit_calls (snd (add_gdf_from_postgis (\<lambda>p. p) (\<lambda>u. Inl (OSError ''offline''))
            (\<lambda>t. Inl (ValueError ''json''))
            (\<lambda>g::nat. Inr (PDict [(PStr ''type'', PStr ''FeatureCollection'')]))
            (\<lambda>g::nat. Inr [(-10, 40, -5, 45), (-8, 38, 2, 50)])
            (\<lambda>sql (con::unit) kw. Inr 0)
            ''select * from t'' () ''Untitled'' True [] sample_world))
       = [([[40, -100], [40, -100]], Some 4), ([[38, 2], [50, -10]], None)]
   \<and> fit_calls (snd (zoom_to_bounds [-10, 38, 2, 50] sample_world))
       = [([[40, -100], [40, -100]], Some 4), ([[38, -10], [50, 2]], None)]"
proof -
  let ?data = "PDict [(PStr ''type'', PStr ''FeatureCollection'')]"
  let ?rows = "[(-10, 40, -5, 45), (-8, 38, 2, 50)] :: (real \<times> real \<times> real \<times> real) list"
  let ?w1 = "add_child (GeoJson ?data ''Untitled''
                     [(''style_function'', PLambda default_style),
                      (''highlight_function'',
                       PLambda (PDict [(PStr ''weight'', PInt 2),
                                       (PStr ''fillOpacity'', PFloat 0.5)]))]) sample_world"
  have fc: "\<And>e. fit_calls (add_child e sample_world) = [([[40, -100], [40, -100]], Some 4)]"
    by (simp add: add_child_def sample_world_def)
  have fc0: "fit_calls sample_world = [([[40, -100], [40, -100]], Some 4)]"
    by (simp add: sample_world_def)
  have w: "(-10::real) = Min (set (map (\<lambda>(minx, miny, maxx, maxy). minx) ?rows))"
    and s: "(38::real) = Min (set (map (\<lambda>(minx, miny, maxx, maxy). miny) ?rows))"
    and e: "(2::real) = Max (set (map (\<lambda>(minx, miny, maxx, maxy). maxx) ?rows))"
    and n: "(50::real) = Max (set (map (\<lambda>(minx, miny, maxx, maxy). maxy) ?rows))"
    by simp_all
  note t = gdf_zoom_exchanges_east_west
    [where to_crs_bounds = "\<lambda>g::nat. Inr ?rows" and gdf = 0 and rows = ?rows
       and gdf_to_geojson = "\<lambda>g::nat. Inr ?data" and data = ?data
       and west = "-10" and south = 38 and east = 2 and north = 50
       and abspath = "\<lambda>p. p" and http_get = "\<lambda>u. Inl (OSError ''offline'')"
       and json_loads = "\<lambda>t. Inl (ValueError ''json'')"
       and layer_name = "''Untitled''" and kwargs = "[]" and w = sample_world
       and ?w1.0 = ?w1 and ?w2.0 = ?w1
       and read_postgis = "\<lambda>sql (con::unit) kw. Inr 0" and sql = "''select * from t''"
       and con = "()",
     OF refl _ refl w s e n]
  have t': "?rows \<noteq> []" by simp
  note u = t [OF t']
  have g: "add_geojson (\<lambda>p. p) (\<lambda>u. Inl (OSError ''offline'')) (\<lambda>t. Inl (ValueError ''json''))
             ?data ''Untitled'' [] sample_world = (Inr (), ?w1)"
    by (rule add_geojson_dict_plain)
  have g': "add_geojson (\<lambda>p. p) (\<lambda>u. Inl (OSError ''offline'')) (\<lambda>t. Inl (ValueError ''json''))
             ?data ''Untitled'' (AList.delete ''fill_colors'' []) sample_world = (Inr (), ?w1)"
    by (simp add: add_geojson_dict_plain)
  from u g have c1: "add_gdf (\<lambda>p. p) (\<lambda>u. Inl (OSError ''offline'')) (\<lambda>t. Inl (ValueError ''json''))
       (\<lambda>g::nat. Inr ?data) (\<lambda>g::nat. Inr ?rows) 0 ''Untitled'' True [] sample_world
     = (Inr (), ?w1\<lparr>fit_calls := fit_calls ?w1 @ [([[38, 2], [50, -10]], None)]\<rparr>)"
    by blast
  from u g' have c2: "add_gdf_from_postgis (\<lambda>p. p) (\<lambda>u. Inl (OSError ''offline''))
            (\<lambda>t. Inl (ValueError ''json'')) (\<lambda>g::nat. Inr ?data) (\<lambda>g::nat. Inr ?rows)
            (\<lambda>sql (con::unit) kw. Inr 0)
            ''select * from t'' () ''Untitled'' True [] sample_world
     = (Inr (), ?w1\<lparr>fit_calls := fit_calls ?w1 @ [([[38, 2], [50, -10]], None)]\<rparr>)"
    by blast
  have c3: "fit_calls (snd (zoom_to_bounds [-10, 38, 2, 50] sample_world))
       = [([[40, -100], [40, -100]], Some 4), ([[38, -10], [50, 2]], None)]"
    by (simp add: zoom_to_bounds_def fit_bounds_def fc0)
  show ?thesis
    by (simp add: c1 c2 c3 fc)
qed

subsection \<open>Legend\<close>

text \<open>
  C2, evaluated on the code. Colours given directly as 6-character strings leave
  \<open>add_legend\<close>'s normalisation without a \<open>#\<close>: for \<open>colors=["ff0000"]\<close> the resolved
  colour is \<open>ff0000\<close>, and that string is what \<open>check_color\<close> receives when the item is
  rendered. The same colour given through \<open>legend_dict\<close> becomes \<open>#ff0000\<close>, as it
  does in \<open>add_colorbar\<close>, and \<open>#ff0000\<close> given through \<open>legend_dict\<close> becomes
  \<open>##ff0000\<close>. Given directly, \<open>#ff0000\<close> stays as it is.
\<close>

theorem legend_six_character_colours_unprefixed:
  "legend_resolve (Some tlines) rgb_to_hex builtin_legends
       (PList [PStr ''ff0000'']) (PList [PStr ''Fire'']) PNone None
     = Inr ([PStr ''Fire''], [PStr ''ff0000''])
   \<and> legend_items check_color fmt opacity [PStr ''Fire''] [PStr ''ff0000'']
     = Inr [''    <li><span style='background:'' @ fmt (check_color (PStr ''ff0000''))
            @ '';opacity:'' @ fmt opacity @ '';'></span>'' @ fmt (PStr ''Fire'')
            @ ''</li>'' @ [CHR 0x0A]]
   \<and> legend_resolve (Some tlines) rgb_to_hex builtin_legends
       PNone PNone (PDict [(PStr ''Fire'', PStr ''ff0000'')]) None
     = Inr ([PStr ''Fire''], [PStr ''#ff0000''])
   \<and> legend_resolve (Some tlines) rgb_to_hex builtin_legends
       PNone PNone (PDict [(PStr ''Fire'', PStr ''#ff0000'')]) None
     = Inr ([PStr ''Fire''], [PStr ''##ff0000''])
   \<and> legend_resolve (Some tlines) rgb_to_hex builtin_legends
       (PList [PStr ''#ff0000'']) (PList [PStr ''Fire'']) PNone None
     = Inr ([PStr ''Fire''], [PStr ''#ff0000''])
   \<and> colorbar_colors [PStr ''ff0000''] = Inr [PStr ''#ff0000'']"
  by (simp add: legend_resolve_def legend_labels_def legend_colors_def is_tuple_def is_str_def
        hash7_def len6_def py_startswith_def py_len_def builtin_step_def dict_step_def
        dict_colors_def hash_str_def legend_items_def legend_item_def colorbar_colors_def)

subsection \<open>Vector ingestion\<close>

text \<open>
  C3, evaluated on the code. With both \<open>style_callback\<close> and \<open>fill_colors\<close>, the style
  function of the layer is \<open>random_color\<close> (the style dictionary with a fill colour
  drawn from the list), not the callback; the callback is the style function only when
  \<open>fill_colors\<close> is absent. \<open>add_osm_from_geocode\<close> always passes \<open>fill_colors\<close>, so a
  callback given to it never becomes the style function.
\<close>

theorem fill_colors_override_style_callback:
  "add_geojson abspath http_get json_loads (PDict d) layer_name
       [(''style_callback'', PFun f), (''fill_colors'', PList [PStr ''red''])] w
     = (Inr (),
        add_child
          (GeoJson (PDict d) layer_name
             [(''style_function'', PRandomColor default_style (PList [PStr ''red''])),
              (''highlight_function'',
               PLambda (PDict [(PStr ''weight'', PInt 2), (PStr ''fillOpacity'', PFloat 0.5)]))])
          w)
   \<and> apply_style call 0 (PRandomColor default_style (PList [PStr ''red''])) feature
     = Inr (PDict [(PStr ''color'', PStr ''#000000''), (PStr ''weight'', PInt 1),
                   (PStr ''opacity'', PInt 1), (PStr ''fillOpacity'', PFloat 0.1),
                   (PStr ''fillColor'', PStr ''red'')])
   \<and> add_geojson abspath http_get json_loads (PDict d) layer_name
       [(''style_callback'', PFun f)] w
     = (Inr (),
        add_child
          (GeoJson (PDict d) layer_name
             [(''style_function'', PFun f),
              (''highlight_function'',
               PLambda (PDict [(PStr ''weight'', PInt 2), (PStr ''fillOpacity'', PFloat 0.5)]))])
          w)
   \<and> add_osm_from_geocode abspath http_get json_loads (\<lambda>q which osmid dist. Inr gdf) (\<lambda>g. PDict d)
       (\<lambda>g. [minx, miny, maxx, maxy]) query PNone False PNone layer_name
       (PDict []) (PDict []) (PFun f) (PList [PStr ''black'']) (PStr ''on_hover'') w
     = (Inr (),
        fit_bounds [[miny, minx], [maxy, maxx]] None
          (add_child
             (GeoJson (PDict d) layer_name
                [(''style_function'', PRandomColor (PDict []) (PList [PStr ''black'']))])
             w))"
  by (simp add: add_osm_from_geocode_def zoom_to_gdf_def zoom_to_bounds_def
        add_geojson_def geojson_data_def geojson_try_def style_step_def
        callback_step_def hover_step_def fill_step_def info_step_def default_style_def
        py_getitem_def py_add1_def py_len_def apply_style_def)

text \<open>
  C6, evaluated on the code. For a local path at which nothing exists, and for an input
  that is neither a string nor a dictionary, \<open>add_geojson\<close> raises the generic
  \<open>Exception\<close> built from the \<open>FileNotFoundError\<close>, respectively the \<open>TypeError\<close>: the
  handler around the loading code re-raises them.
\<close>

theorem add_geojson_errors_are_wrapped:
  "add_geojson (\<lambda>p. ''/home/'' @ p) http_get json_loads (PStr ''missing.geojson'')
       layer_name kwargs sample_world
     = (Inl (Exception (FileNotFoundError ''The provided GeoJSON file could not be found.'')),
        sample_world)
   \<and> add_geojson abspath http_get json_loads (PInt 3) layer_name kwargs w
     = (Inl (Exception (TypeError ''The input geojson must be a type of str or dict.'')), w)"
  by (simp add: add_geojson_def geojson_data_def geojson_try_def path_exists_def
        sample_world_def)

text \<open>
  For a string starting with \<open>http\<close>, the loading code issues one GET request and takes
  the parsed body of the response as the data.
\<close>

lemma add_geojson_url_one_fetch:
  assumes "prefix ''http'' url" "http_get url = Inr body" "json_loads body = Inr data"
  shows "geojson_data abspath http_get json_loads (PStr url) w
           = (Inr data, w\<lparr>requests := requests w @ [url]\<rparr>)"
  using assms by (simp add: geojson_data_def geojson_try_def)

subsection \<open>Legend entries\<close>

























subsection \<open>COG mosaics\<close>







subsection \<open>Unsupported operations\<close>

lemma not_supported_names_ipyleaflet:
  "\<exists>pre post. not_supported = pre @ ''ipyleaflet'' @ post"
  unfolding not_supported_def
  by (rule exI [of _ "''The folium plotting backend does not support this function. Use the ''"])
     simp

text \<open>
  C10. For each of the 19 method stubs and the two module-level functions, and for
  every positional and keyword arguments: when the signature binds the arguments, the
  call ends with the \<open>NotImplementedError\<close> whose message names the \<open>ipyleaflet\<close> backend;
  when it does not, the call ends with a \<open>TypeError\<close> before the body runs. The map is
  unchanged in both cases.
\<close>

theorem stubs_not_supported_when_bound:
  "(accepts s a \<longrightarrow> call_stub s a w = (Inl (NotImplementedError not_supported), w))
   \<and> (\<not> accepts s a \<longrightarrow> (\<exists>m. call_stub s a w = (Inl (TypeError m), w)))
   \<and> (\<exists>pre post. not_supported = pre @ ''ipyleaflet'' @ post)"
proof (intro conjI impI)
  assume "accepts s a"
  then show "call_stub s a w = (Inl (NotImplementedError not_supported), w)"
    by (cases s)
      (simp_all add: add_colormap_def add_marker_cluster_def add_minimap_def
         add_point_layer_def add_raster_def add_time_slider_def add_vector_tile_layer_def
         add_xy_data_def basemap_demo_def find_layer_def find_layer_index_def
         get_layer_names_def get_scale_def image_overlay_def layer_opacity_def
         Map_split_map_def to_image_def toolbar_reset_def video_overlay_def linked_maps_def
         split_map_def)
next
  assume "\<not> accepts s a"
  then show "\<exists>m. call_stub s a w = (Inl (TypeError m), w)"
    by (cases s)
      (simp_all add: add_colormap_def add_marker_cluster_def add_minimap_def
         add_point_layer_def add_raster_def add_time_slider_def add_vector_tile_layer_def
         add_xy_data_def basemap_demo_def find_layer_def find_layer_index_def
         get_layer_names_def get_scale_def image_overlay_def layer_opacity_def
         Map_split_map_def to_image_def toolbar_reset_def video_overlay_def linked_maps_def
         split_map_def)
next
  show "\<exists>pre post. not_supported = pre @ ''ipyleaflet'' @ post"
    by (rule not_supported_names_ipyleaflet)
qed

text \<open>
  \<open>add_minimap(zoom=3)\<close> and \<open>linked_maps(2, 2, extra=None)\<close> are bound and not supported;
  \<open>image_overlay("u", name="n")\<close> lacks the required \<open>bounds\<close> and is a \<open>TypeError\<close>.
\<close>

theorem stubs_not_supported_when_bound_witness:
  "accepts Add_minimap ([], [(''zoom'', PInt 3)])
   \<and> call_stub Add_minimap ([], [(''zoom'', PInt 3)]) sample_world
       = (Inl (NotImplementedError not_supported), sample_world)
   \<and> accepts Linked_maps ([PInt 2, PInt 2], [(''extra'', PNone)])
   \<and> call_stub Linked_maps ([PInt 2, PInt 2], [(''extra'', PNone)]) sample_world
       = (Inl (NotImplementedError not_supported), sample_world)
   \<and> \<not> accepts Image_overlay ([PStr ''u''], [(''name'', PStr ''n'')])
   \<and> (\<exists>m. call_stub Image_overlay ([PStr ''u''], [(''name'', PStr ''n'')]) sample_world
            = (Inl (TypeError m), sample_world))"
proof -
  have a1: "accepts Add_minimap ([], [(''zoom'', PInt 3)])"
    by (simp add: accepts_def binds_def)
  have a2: "accepts Linked_maps ([PInt 2, PInt 2], [(''extra'', PNone)])"
    by (simp add: accepts_def binds_def)
  have a3: "\<not> accepts Image_overlay ([PStr ''u''], [(''name'', PStr ''n'')])"
    by (simp add: accepts_def binds_def)
  from a1 stubs_not_supported_when_bound [of Add_minimap "([], [(''zoom'', PInt 3)])" sample_world]
  have c1: "call_stub Add_minimap ([], [(''zoom'', PInt 3)]) sample_world
       = (Inl (NotImplementedError not_supported), sample_world)"
    by blast
  from a2 stubs_not_supported_when_bound
            [of Linked_maps "([PInt 2, PInt 2], [(''extra'', PNone)])" sample_world]
  have c2: "call_stub Linked_maps ([PInt 2, PInt 2], [(''extra'', PNone)]) sample_world
       = (Inl (NotImplementedError not_supported), sample_world)"
    by blast
  from a3 stubs_not_supported_when_bound
            [of Image_overlay "([PStr ''u''], [(''name'', PStr ''n'')])" sample_world]
  have c3: "\<exists>m. call_stub Image_overlay ([PStr ''u''], [(''name'', PStr ''n'')]) sample_world
            = (Inl (TypeError m), sample_world)"
    by blast
  from a1 a2 a3 c1 c2 c3 show ?thesis
    by blast
qed

text \<open>
  Not every argument list ends in the not-supported error: \<open>add_minimap(1, 2, 3)\<close> passes
  more positional arguments than the method takes, \<open>find_layer()\<close> lacks the required
  \<open>name\<close>, and both end with a \<open>TypeError\<close>.
\<close>

theorem stub_arguments_counterexample:
  "call_stub Add_minimap ([PInt 1, PInt 2, PInt 3], []) sample_world
     = (Inl (TypeError ''add_minimap()''), sample_world)
   \<and> call_stub Find_layer ([], []) sample_world
     = (Inl (TypeError ''find_layer()''), sample_world)
   \<and> fst (call_stub Add_minimap ([PInt 1, PInt 2, PInt 3], []) sample_world)
       \<noteq> Inl (NotImplementedError not_supported)
   \<and> fst (call_stub Find_layer ([], []) sample_world)
       \<noteq> Inl (NotImplementedError not_supported)"
  by (simp add: add_minimap_def find_layer_def accepts_def binds_def)

subsection \<open>HTML export\<close>






lemma repr_mimebundle_fs [simp]:
  "files (repr_mimebundle w) = files w"
  "dirs (repr_mimebundle w) = dirs w"
  "os_refuses (repr_mimebundle w) = os_refuses w"
  by (simp_all add: repr_mimebundle_def add_layer_control_def add_child_def)







end
